theory Spec2Isabelle
  imports Complex_Main "HOL-Library.List_Lexorder"
begin

section \<open>Trend labels and recommendation labels\<close>

text \<open>
  The classifier returns one of five string literals, and the recommendation mapping one
  of five string literals; each family is an enumeration.  The score tables of
  \<open>calculate_supply_score\<close> are dictionaries keyed by exactly the five trend labels.
\<close>

datatype trend = strong_buy | buy | neutral | sell | strong_sell

datatype recommendation = rec_strong_buy | rec_buy | rec_hold | rec_sell | rec_strong_sell

section \<open>Streak detector: \<open>calculate_continuous_days\<close>\<close>

text \<open>
  \<open>collect_stockdemand.py\<close>, \<open>StockSupplyDemandCollector.calculate_continuous_days\<close>
  (the copy in \<open>backup/demand_analysis.py\<close> has the same body).  The series holds the
  signed quantities of one investor category, most recent first.
\<close>

definition sign_of :: "int \<Rightarrow> int" where
  "sign_of v = (if v > 0 then 1 else if v < 0 then -1 else 0)"

text \<open>
  The \<open>for i in range(1, len(data))\<close> loop: the remaining elements are walked in order,
  \<open>continuous_days\<close> is the counter, and \<open>break\<close> leaves the loop at the first
  element whose sign differs.
\<close>

fun continuous_loop :: "int \<Rightarrow> int list \<Rightarrow> int \<Rightarrow> int" where
  "continuous_loop current_sign [] continuous_days = continuous_days"
| "continuous_loop current_sign (v # rest) continuous_days =
     (if sign_of v = current_sign
      then continuous_loop current_sign rest (continuous_days + 1)
      else continuous_days)"

definition calculate_continuous_days :: "int list \<Rightarrow> int" where
  "calculate_continuous_days data =
     (case data of
        [] \<Rightarrow> 0
      | v0 # rest \<Rightarrow>
          (let current_sign = sign_of v0 in
           if current_sign = 0 then 0
           else continuous_loop current_sign rest 1 * current_sign))"

section \<open>Trend classifier: \<open>assess_trend\<close>\<close>

text \<open>
  \<open>(data > 0).sum()\<close> and \<open>(data < 0).sum()\<close> count the strictly positive and the
  strictly negative entries.
\<close>

definition positive_count :: "int list \<Rightarrow> nat" where
  "positive_count data = length (filter (\<lambda>v. v > 0) data)"

definition negative_count :: "int list \<Rightarrow> nat" where
  "negative_count data = length (filter (\<lambda>v. v < 0) data)"

text \<open>
  The comparison \<open>count >= total_count * 0.7\<close> is between an integer count and the
  product of an integer with the literal \<open>0.7\<close>; it is written here over the rationals
  with the literal at its decimal value.
\<close>

definition at_least_70_percent :: "nat \<Rightarrow> nat \<Rightarrow> bool" where
  "at_least_70_percent cnt total_count \<longleftrightarrow> (of_nat cnt :: rat) \<ge> of_nat total_count * (7 / 10)"

text \<open>
  \<open>collect_stockdemand.py\<close>, \<open>StockSupplyDemandCollector.assess_trend\<close>: fewer than
  three values give \<open>neutral\<close>; otherwise \<open>data.head(5)\<close> is inspected.
\<close>

definition assess_trend :: "int list \<Rightarrow> trend" where
  "assess_trend data =
     (if length data < 3 then neutral
      else
        (let recent_data = take 5 data;
             total_count = length recent_data in
         if positive_count recent_data = total_count then strong_buy
         else if at_least_70_percent (positive_count recent_data) total_count then buy
         else if negative_count recent_data = total_count then strong_sell
         else if at_least_70_percent (negative_count recent_data) total_count then sell
         else neutral))"

text \<open>
  \<open>analysis.py\<close>, \<open>StockAnalyzer.assess_trend\<close>: the guard is \<open>len(data) < 2\<close> and
  the whole series it is given is inspected (its caller passes \<open>data.head(window)\<close>).
\<close>

definition analyzer_assess_trend :: "int list \<Rightarrow> trend" where
  "analyzer_assess_trend data =
     (if length data < 2 then neutral
      else
        (let total_count = length data in
         if positive_count data = total_count then strong_buy
         else if at_least_70_percent (positive_count data) total_count then buy
         else if negative_count data = total_count then strong_sell
         else if at_least_70_percent (negative_count data) total_count then sell
         else neutral))"

section \<open>Score aggregator: \<open>calculate_supply_score\<close> and \<open>get_recommendation\<close>\<close>

fun foreigner_map :: "trend \<Rightarrow> int" where
  "foreigner_map strong_buy = 100"
| "foreigner_map buy = 75"
| "foreigner_map neutral = 50"
| "foreigner_map sell = 25"
| "foreigner_map strong_sell = 0"

fun organ_map :: "trend \<Rightarrow> int" where
  "organ_map strong_buy = 100"
| "organ_map buy = 75"
| "organ_map neutral = 50"
| "organ_map sell = 25"
| "organ_map strong_sell = 0"

fun individual_map :: "trend \<Rightarrow> int" where
  "individual_map strong_buy = 0"
| "individual_map buy = 25"
| "individual_map neutral = 50"
| "individual_map sell = 75"
| "individual_map strong_sell = 100"

text \<open>Python's \<open>int(x)\<close> on a number with a fractional part: truncation toward zero.\<close>

definition py_int :: "rat \<Rightarrow> int" where
  "py_int x = (if x \<ge> 0 then \<lfloor>x\<rfloor> else \<lceil>x\<rceil>)"

text \<open>
  \<open>collect_stockdemand.py\<close>, \<open>StockSupplyDemandCollector.calculate_supply_score\<close>.
  The three arguments are the entries \<open>foreigner_buy_trend\<close>, \<open>organ_buy_trend\<close> and
  \<open>individual_buy_trend\<close> of the analysis dictionary, the only ones read.  Each term is
  \<open>(table - 50) * weight / 100\<close>: an integer product followed by Python's true division,
  whose quotient is a whole number for every table entry.
\<close>

definition calculate_supply_score :: "trend \<Rightarrow> trend \<Rightarrow> trend \<Rightarrow> int" where
  "calculate_supply_score foreigner_buy_trend organ_buy_trend individual_buy_trend =
     (let score = (50 :: rat);
          foreigner_weight = (40 :: int);
          score = score + of_int ((foreigner_map foreigner_buy_trend - 50) * foreigner_weight) / 100;
          organ_weight = (40 :: int);
          score = score + of_int ((organ_map organ_buy_trend - 50) * organ_weight) / 100;
          individual_weight = (20 :: int);
          score = score + of_int ((individual_map individual_buy_trend - 50) * individual_weight) / 100
      in max 0 (min 100 (py_int score)))"

text \<open>
  \<open>analysis.py\<close>, \<open>StockAnalyzer.calculate_supply_score\<close>: the weights are the
  literals \<open>0.4\<close>, \<open>0.4\<close> and \<open>0.2\<close>, taken here at their decimal values.  (At the
  fifteen table entries the binary64 products \<open>\<plusminus>50 * 0.4\<close>, \<open>\<plusminus>25 * 0.4\<close>,
  \<open>\<plusminus>50 * 0.2\<close> and \<open>\<plusminus>25 * 0.2\<close> round to the whole numbers \<open>\<plusminus>20\<close>, \<open>\<plusminus>10\<close>,
  \<open>\<plusminus>10\<close> and \<open>\<plusminus>5\<close>, so the sums are the same numbers.)
\<close>

definition analyzer_calculate_supply_score :: "trend \<Rightarrow> trend \<Rightarrow> trend \<Rightarrow> int" where
  "analyzer_calculate_supply_score foreigner_trend organ_trend individual_trend =
     (let score = (50 :: rat);
          score = score + of_int (foreigner_map foreigner_trend - 50) * (4 / 10);
          score = score + of_int (organ_map organ_trend - 50) * (4 / 10);
          score = score + of_int (individual_map individual_trend - 50) * (2 / 10)
      in max 0 (min 100 (py_int score)))"

text \<open>
  \<open>get_recommendation\<close> has the same body in \<open>analysis.py\<close> and in
  \<open>collect_stockdemand.py\<close>.
\<close>

definition get_recommendation :: "int \<Rightarrow> recommendation" where
  "get_recommendation score =
     (if score \<ge> 80 then rec_strong_buy
      else if score \<ge> 60 then rec_buy
      else if score \<ge> 40 then rec_hold
      else if score \<ge> 20 then rec_sell
      else rec_strong_sell)"

section \<open>The specification's reading of the score and of the streak\<close>

text \<open>
  The composite score as the specification words it.  The reference table
  \<open>strong_buy 100, buy 75, neutral 50, sell 25, strong_sell 0\<close> serves the foreign and
  the institutional leg, the inverted table \<open>strong_buy 0, buy 25, neutral 50, sell 75,
  strong_sell 100\<close> the individual leg.  The score is base 50 plus
  \<open>(mapped - 50) \<times> weight\<close> with weights 0.40, 0.40 and 0.20, clamped into \<open>[0, 100]\<close>
  and truncated once at the end.  These tables are written out here from the
  specification; they do not refer to the dictionaries of the code.
\<close>

fun spec_reference_value :: "trend \<Rightarrow> rat" where
  "spec_reference_value strong_buy = 100"
| "spec_reference_value buy = 75"
| "spec_reference_value neutral = 50"
| "spec_reference_value sell = 25"
| "spec_reference_value strong_sell = 0"

fun spec_inverted_value :: "trend \<Rightarrow> rat" where
  "spec_inverted_value strong_buy = 0"
| "spec_inverted_value buy = 25"
| "spec_inverted_value neutral = 50"
| "spec_inverted_value sell = 75"
| "spec_inverted_value strong_sell = 100"

definition spec_weighted_sum :: "trend \<Rightarrow> trend \<Rightarrow> trend \<Rightarrow> rat" where
  "spec_weighted_sum f g i =
     50 + (spec_reference_value f - 50) * (40 / 100)
        + (spec_reference_value g - 50) * (40 / 100)
        + (spec_inverted_value i - 50) * (20 / 100)"

definition spec_composite_score :: "trend \<Rightarrow> trend \<Rightarrow> trend \<Rightarrow> int" where
  "spec_composite_score f g i = py_int (max 0 (min 100 (spec_weighted_sum f g i)))"

text \<open>
  The streak as the specification words it: the length of the leading run of elements
  whose sign is the sign of the first one, times that sign.
\<close>

definition spec_streak :: "int list \<Rightarrow> int" where
  "spec_streak data =
     (case data of
        [] \<Rightarrow> 0
      | v0 # rest \<Rightarrow>
          if v0 = 0 then 0
          else int (length (takeWhile (\<lambda>v. sgn v = sgn v0) data)) * sgn v0)"

text \<open>
  Every term of the weighted sum is a whole number at every table entry; this is the sum
  with the divisions carried out in the integers.
\<close>

definition whole_score :: "trend \<Rightarrow> trend \<Rightarrow> trend \<Rightarrow> int" where
  "whole_score f g i =
     50 + (foreigner_map f - 50) * 2 div 5 + (organ_map g - 50) * 2 div 5
        + (individual_map i - 50) div 5"

section \<open>Python values and exceptions\<close>

text \<open>
  The values the normalizer tells apart: \<open>None\<close>, the numeric types \<open>int\<close> and
  \<open>float\<close>, \<open>bytes\<close> and \<open>str\<close>.  A \<open>bytes\<close> object is a list of bytes
  (\<open>char\<close> is a byte); a \<open>str\<close> is a list of Unicode code points.  A finite float
  is given by the rational number it holds; no rounding to 53 bits is modelled.
\<close>

datatype pyfloat = Finite rat | PosInf | NegInf | NaN

type_synonym py_bytes = "char list"

type_synonym py_str = "nat list"

datatype pyval = PyNone | PyInt int | PyFloat pyfloat | PyBytes py_bytes | PyStr py_str

datatype py_error = ValueError | TypeError | OverflowError | KeyError | AttributeError

text \<open>A text literal whose characters are all ASCII.\<close>

definition text_of :: "string \<Rightarrow> py_str" where
  "text_of s = map of_char s"

subsection \<open>\<open>bytes.decode('utf-8')\<close>\<close>

text \<open>
  The strict UTF-8 decoder: shortest forms only, no surrogates, nothing above
  \<open>U+10FFFF\<close>.  \<open>None\<close> stands for \<open>UnicodeDecodeError\<close>.
\<close>

definition continuation :: "nat \<Rightarrow> bool" where
  "continuation b \<longleftrightarrow> 128 \<le> b \<and> b < 192"

fun utf8_code_points :: "nat list \<Rightarrow> py_str option" where
  "utf8_code_points [] = Some []"
| "utf8_code_points (b # bs) =
     (if b < 128 then map_option ((#) b) (utf8_code_points bs)
      else if 194 \<le> b \<and> b < 224 then
        (case bs of
           c1 # bs' \<Rightarrow>
             if continuation c1
             then map_option ((#) ((b - 192) * 64 + (c1 - 128))) (utf8_code_points bs')
             else None
         | _ \<Rightarrow> None)
      else if 224 \<le> b \<and> b < 240 then
        (case bs of
           c1 # c2 # bs' \<Rightarrow>
             if continuation c1 \<and> continuation c2
                \<and> (if b = 224 then 160 \<le> c1 else True)
                \<and> (if b = 237 then c1 < 160 else True)
             then map_option ((#) ((b - 224) * 4096 + (c1 - 128) * 64 + (c2 - 128)))
                    (utf8_code_points bs')
             else None
         | _ \<Rightarrow> None)
      else if 240 \<le> b \<and> b < 245 then
        (case bs of
           c1 # c2 # c3 # bs' \<Rightarrow>
             if continuation c1 \<and> continuation c2 \<and> continuation c3
                \<and> (if b = 240 then 144 \<le> c1 else True)
                \<and> (if b = 244 then c1 < 144 else True)
             then map_option
                    ((#) ((b - 240) * 262144 + (c1 - 128) * 4096 + (c2 - 128) * 64 + (c3 - 128)))
                    (utf8_code_points bs')
             else None
         | _ \<Rightarrow> None)
      else None)"

definition decode_utf8 :: "py_bytes \<Rightarrow> py_str option" where
  "decode_utf8 b = utf8_code_points (map of_char b)"

subsection \<open>\<open>int(text)\<close> and \<open>float(text)\<close>\<close>

text \<open>
  White space that \<open>int\<close> and \<open>float\<close> skip around a number: the ASCII characters
  tab to carriage return and space, and the Unicode spaces outside ASCII.
\<close>

definition number_space :: "nat \<Rightarrow> bool" where
  "number_space c \<longleftrightarrow>
     (9 \<le> c \<and> c \<le> 13) \<or> c = 32 \<or> c = 133 \<or> c = 160 \<or> c = 5760
     \<or> (8192 \<le> c \<and> c \<le> 8202) \<or> c = 8232 \<or> c = 8233 \<or> c = 8239 \<or> c = 8287
     \<or> c = 12288"

text \<open>\<open>str.strip()\<close> also removes the four separators \<open>U+001C\<close> to \<open>U+001F\<close>.\<close>

definition strip_space :: "nat \<Rightarrow> bool" where
  "strip_space c \<longleftrightarrow> number_space c \<or> (28 \<le> c \<and> c \<le> 31)"

definition strip_by :: "(nat \<Rightarrow> bool) \<Rightarrow> py_str \<Rightarrow> py_str" where
  "strip_by sp s = rev (dropWhile sp (rev (dropWhile sp s)))"

text \<open>
  Decimal digits are the ASCII digits; the decimal digits of other scripts, which Python
  also accepts, are outside the model.
\<close>

definition is_digit :: "nat \<Rightarrow> bool" where
  "is_digit c \<longleftrightarrow> 48 \<le> c \<and> c \<le> 57"

text \<open>
  The digits of an integer literal: at least one digit, single underscores allowed
  between digits only.  The flag says that the previous character was a digit.
\<close>

fun digit_groups :: "py_str \<Rightarrow> nat \<Rightarrow> bool \<Rightarrow> nat option" where
  "digit_groups [] acc prev_digit = (if prev_digit then Some acc else None)"
| "digit_groups (c # cs) acc prev_digit =
     (if is_digit c then digit_groups cs (acc * 10 + (c - 48)) True
      else if c = 95 \<and> prev_digit then digit_groups cs acc False
      else None)"

text \<open>\<open>int(s)\<close> for a \<open>str\<close>, base ten; \<open>None\<close> stands for \<open>ValueError\<close>.\<close>

definition int_of_text :: "py_str \<Rightarrow> int option" where
  "int_of_text s =
     (case strip_by number_space s of
        [] \<Rightarrow> None
      | c # r \<Rightarrow>
          if c = 45 then map_option (\<lambda>n. - int n) (digit_groups r 0 False)
          else if c = 43 then map_option int (digit_groups r 0 False)
          else map_option int (digit_groups (c # r) 0 False))"

text \<open>
  A magnitude from \<open>2^1024 - 2^970\<close> on rounds to a binary64 value beyond the largest
  finite one.
\<close>

definition binary64_overflows :: "rat \<Rightarrow> bool" where
  "binary64_overflows q \<longleftrightarrow> \<bar>q\<bar> \<ge> 2 ^ 1024 - 2 ^ 970"

text \<open>In a float literal every underscore stands between two digits.\<close>

fun underscores_ok :: "nat option \<Rightarrow> py_str \<Rightarrow> bool" where
  "underscores_ok prev [] = (prev \<noteq> Some 95)"
| "underscores_ok prev (c # cs) =
     (if c = 95 then (case prev of Some p \<Rightarrow> is_digit p | None \<Rightarrow> False)
                     \<and> underscores_ok (Some c) cs
      else (if prev = Some 95 then is_digit c else True) \<and> underscores_ok (Some c) cs)"

definition digits_val :: "py_str \<Rightarrow> nat" where
  "digits_val ds = foldl (\<lambda>a c. a * 10 + (c - 48)) 0 ds"

definition lower :: "py_str \<Rightarrow> py_str" where
  "lower s = map (\<lambda>c. if 65 \<le> c \<and> c \<le> 90 then c + 32 else c) s"

text \<open>
  An unsigned decimal literal without underscores: digits, an optional point with
  digits, at least one digit in all, and an optional exponent.
\<close>

definition parse_decimal :: "py_str \<Rightarrow> rat option" where
  "parse_decimal s =
     (let ip = takeWhile is_digit s;
          r1 = dropWhile is_digit s;
          fp = (case r1 of [] \<Rightarrow> [] | c # r \<Rightarrow> if c = 46 then takeWhile is_digit r else []);
          r2 = (case r1 of [] \<Rightarrow> [] | c # r \<Rightarrow> if c = 46 then dropWhile is_digit r else r1)
      in if ip = [] \<and> fp = [] then None
         else
           (let mant = (of_nat (digits_val ip) :: rat) + of_nat (digits_val fp) / 10 ^ length fp
            in case r2 of
                 [] \<Rightarrow> Some mant
               | c # r \<Rightarrow>
                   if c = 101 \<or> c = 69 then
                     (let neg = (case r of [] \<Rightarrow> False | d # _ \<Rightarrow> d = 45);
                          ed = (case r of [] \<Rightarrow> [] | d # r' \<Rightarrow> if d = 45 \<or> d = 43 then r' else r)
                      in if ed \<noteq> [] \<and> list_all is_digit ed
                         then Some (if neg then mant / 10 ^ digits_val ed
                                    else mant * 10 ^ digits_val ed)
                         else None)
                   else None))"

text \<open>\<open>float(s)\<close> for a \<open>str\<close>; \<open>None\<close> stands for \<open>ValueError\<close>.\<close>

definition float_of_text :: "py_str \<Rightarrow> pyfloat option" where
  "float_of_text s =
     (let t = strip_by number_space s in
      if \<not> underscores_ok None t then None
      else
        (let u = filter (\<lambda>c. c \<noteq> 95) t;
             neg = (case u of [] \<Rightarrow> False | c # _ \<Rightarrow> c = 45);
             body = (case u of [] \<Rightarrow> [] | c # r \<Rightarrow> if c = 45 \<or> c = 43 then r else u)
         in if lower body = text_of ''inf'' \<or> lower body = text_of ''infinity''
            then Some (if neg then NegInf else PosInf)
            else if lower body = text_of ''nan'' then Some NaN
            else
              (case parse_decimal body of
                 None \<Rightarrow> None
               | Some q \<Rightarrow>
                   if binary64_overflows q then Some (if neg then NegInf else PosInf)
                   else Some (Finite (if neg then - q else q)))))"

text \<open>
  \<open>int(x)\<close> for a float truncates a finite value toward zero and raises on an infinity
  (\<open>OverflowError\<close>) and on a NaN (\<open>ValueError\<close>).  \<open>float(n)\<close> for an integer
  raises \<open>OverflowError\<close> when the integer is beyond the binary64 range.
\<close>

definition int_of_float :: "pyfloat \<Rightarrow> py_error + int" where
  "int_of_float x =
     (case x of
        Finite q \<Rightarrow> Inr (py_int q)
      | PosInf \<Rightarrow> Inl OverflowError
      | NegInf \<Rightarrow> Inl OverflowError
      | NaN \<Rightarrow> Inl ValueError)"

definition float_of_int :: "int \<Rightarrow> py_error + pyfloat" where
  "float_of_int n =
     (if binary64_overflows (of_int n) then Inl OverflowError else Inr (Finite (of_int n)))"

section \<open>Numeric normalizer\<close>

text \<open>
  \<open>data_collector.py\<close>, \<open>StockDataCollector.safe_int_convert\<close> (the copy in
  \<open>backup/demand_analysis.py\<close> has the same body).  The numeric branch calls
  \<open>int(value)\<close> outside any \<open>try\<close>; the \<open>bytes\<close> branch decodes and calls
  \<open>int\<close> inside a \<open>try\<close>; the \<open>str\<close> branch removes every \<open>+\<close> and \<open>,\<close> by
  \<open>re.sub(r'[+,]', '', value)\<close> and calls \<open>int\<close> inside a \<open>try\<close>.
\<close>

definition safe_int_convert :: "pyval \<Rightarrow> py_error + int" where
  "safe_int_convert v =
     (case v of
        PyNone \<Rightarrow> Inr 0
      | PyInt n \<Rightarrow> Inr n
      | PyFloat x \<Rightarrow> int_of_float x
      | PyBytes b \<Rightarrow>
          (case decode_utf8 b of
             None \<Rightarrow> Inr 0
           | Some s \<Rightarrow> (case int_of_text s of None \<Rightarrow> Inr 0 | Some n \<Rightarrow> Inr n))
      | PyStr s \<Rightarrow>
          (let cleaned = filter (\<lambda>c. c \<noteq> 43 \<and> c \<noteq> 44) s
           in case int_of_text cleaned of None \<Rightarrow> Inr 0 | Some n \<Rightarrow> Inr n))"

text \<open>
  \<open>data_collector.py\<close>, \<open>StockDataCollector.safe_float_convert\<close>: the same shape
  with \<open>float\<close>; the \<open>str\<close> branch removes every \<open>%\<close>.
\<close>

definition safe_float_convert :: "pyval \<Rightarrow> py_error + pyfloat" where
  "safe_float_convert v =
     (case v of
        PyNone \<Rightarrow> Inr (Finite 0)
      | PyInt n \<Rightarrow> float_of_int n
      | PyFloat x \<Rightarrow> Inr x
      | PyBytes b \<Rightarrow>
          (case decode_utf8 b of
             None \<Rightarrow> Inr (Finite 0)
           | Some s \<Rightarrow> (case float_of_text s of None \<Rightarrow> Inr (Finite 0) | Some x \<Rightarrow> Inr x))
      | PyStr s \<Rightarrow>
          (let cleaned = filter (\<lambda>c. c \<noteq> 37) s
           in case float_of_text cleaned of None \<Rightarrow> Inr (Finite 0) | Some x \<Rightarrow> Inr x))"

text \<open>
  \<open>collect_stockdemand.py\<close>, \<open>StockSupplyDemandCollector.parse_numeric_string\<close>.
  A falsy value (\<open>None\<close>, zero, the empty text or byte string) and the text \<open>N/A\<close>
  give 0.  Otherwise \<open>str(value_str)\<close> loses every \<open>+\<close>, \<open>,\<close> and \<open>%\<close>, is
  stripped, and is parsed inside a \<open>try\<close>, a leading minus sign being taken off first.
  \<open>str\<close> of a float always holds a point, an exponent, \<open>inf\<close> or \<open>nan\<close>, and
  \<open>str\<close> of a byte string starts with the letter \<open>b\<close>, so \<open>int\<close> raises
  \<open>ValueError\<close> on both and the result is 0.
\<close>

fun decimal_digits :: "nat \<Rightarrow> py_str" where
  "decimal_digits n = (if n < 10 then [48 + n] else decimal_digits (n div 10) @ [48 + n mod 10])"

definition str_of_int :: "int \<Rightarrow> py_str" where
  "str_of_int n = (if n < 0 then 45 # decimal_digits (nat (- n)) else decimal_digits (nat n))"

definition numeric_text :: "py_str \<Rightarrow> int" where
  "numeric_text s =
     (let cleaned = strip_by strip_space (filter (\<lambda>c. c \<noteq> 43 \<and> c \<noteq> 44 \<and> c \<noteq> 37) s)
      in case cleaned of
           [] \<Rightarrow> 0
         | c # r \<Rightarrow>
             if c = 45
             then (case int_of_text (filter (\<lambda>c. c \<noteq> 44) r) of None \<Rightarrow> 0 | Some n \<Rightarrow> - n)
             else (case int_of_text (filter (\<lambda>c. c \<noteq> 44) cleaned) of None \<Rightarrow> 0 | Some n \<Rightarrow> n))"

definition parse_numeric_string :: "pyval \<Rightarrow> int" where
  "parse_numeric_string value_str =
     (case value_str of
        PyNone \<Rightarrow> 0
      | PyInt n \<Rightarrow> if n = 0 then 0 else numeric_text (str_of_int n)
      | PyFloat x \<Rightarrow> 0
      | PyBytes b \<Rightarrow> 0
      | PyStr s \<Rightarrow> if s = [] \<or> s = text_of ''N/A'' then 0 else numeric_text s)"

text \<open>
  \<open>collect_stockdemand.py\<close>, \<open>StockSupplyDemandCollector.parse_ratio_string\<close>: the
  same guard; \<open>str(ratio_str)\<close> loses every \<open>%\<close>, is stripped and goes to
  \<open>float\<close> inside a \<open>try\<close>.  \<open>float(str(x))\<close> of a float is the float again.
\<close>

definition ratio_text :: "py_str \<Rightarrow> pyfloat" where
  "ratio_text s =
     (let cleaned = strip_by strip_space (filter (\<lambda>c. c \<noteq> 37) s)
      in if cleaned = [] then Finite 0
         else (case float_of_text cleaned of None \<Rightarrow> Finite 0 | Some x \<Rightarrow> x))"

definition parse_ratio_string :: "pyval \<Rightarrow> pyfloat" where
  "parse_ratio_string ratio_str =
     (case ratio_str of
        PyNone \<Rightarrow> Finite 0
      | PyInt n \<Rightarrow> if n = 0 then Finite 0 else ratio_text (str_of_int n)
      | PyFloat x \<Rightarrow> if x = Finite 0 then Finite 0 else x
      | PyBytes b \<Rightarrow> Finite 0
      | PyStr s \<Rightarrow> if s = [] \<or> s = text_of ''N/A'' then Finite 0 else ratio_text s)"

section \<open>Record parser: \<open>parse_stock_data\<close>\<close>

text \<open>
  One raw daily record is a dictionary; an absent key is \<open>None\<close> here.  The entry
  \<open>compareToPreviousPrice\<close> is read with \<open>.get('text', '')\<close>, so it is either a
  mapping, given by its \<open>text\<close> entry, or a value without a \<open>get\<close> method.
\<close>

datatype nested = Mapping "pyval option" | NotMapping

record raw_item =
  bizdate :: "pyval option"
  closePrice :: "pyval option"
  compareToPreviousClosePrice :: "pyval option"
  compareToPreviousPrice :: "nested option"
  foreignerPureBuyQuant :: "pyval option"
  foreignerHoldRatio :: "pyval option"
  organPureBuyQuant :: "pyval option"
  individualPureBuyQuant :: "pyval option"
  accumulatedTradingVolume :: "pyval option"

text \<open>
  The canonical record, one row of the table \<open>stock_supply_demand\<close>.  The two
  float-valued fields hold exact rationals: the binary64 rounding of each operation is
  not modelled.
\<close>

record flow_record =
  stock_code :: py_str
  stock_name :: py_str
  date :: py_str
  close_price :: int
  price_change :: int
  change_direction :: pyval
  change_rate :: pyfloat
  foreigner_pure_buy :: int
  foreigner_hold_ratio :: pyfloat
  organ_pure_buy :: int
  individual_pure_buy :: int
  accumulated_volume :: int
  net_institutional_buy :: int
  supply_demand_balance :: int

text \<open>Sequencing inside the \<open>try\<close> block: the first exception ends the block.\<close>

definition and_then :: "py_error + 'a \<Rightarrow> ('a \<Rightarrow> py_error + 'b) \<Rightarrow> py_error + 'b" where
  "and_then r f = (case r of Inl e \<Rightarrow> Inl e | Inr x \<Rightarrow> f x)"

text \<open>\<open>item.get(key, 0)\<close>.\<close>

definition get_or_zero :: "pyval option \<Rightarrow> pyval" where
  "get_or_zero entry = (case entry of None \<Rightarrow> PyInt 0 | Some v \<Rightarrow> v)"

text \<open>
  \<open>repr\<close> of a byte string, which an f-string prints for a slice of bytes: the quote is
  the apostrophe unless the bytes hold an apostrophe and no double quote.
\<close>

definition hex_digit :: "nat \<Rightarrow> nat" where
  "hex_digit n = (if n < 10 then 48 + n else 87 + n)"

definition bytes_repr :: "py_bytes \<Rightarrow> py_str" where
  "bytes_repr b =
     (let bs = map of_char b;
          quote = (if 39 \<in> set bs \<and> 34 \<notin> set bs then 34 else (39 :: nat));
          esc = (\<lambda>c. if c = quote \<or> c = 92 then [92, c]
                     else if c = 9 then [92, 116]
                     else if c = 10 then [92, 110]
                     else if c = 13 then [92, 114]
                     else if c < 32 \<or> c \<ge> 127
                     then [92, 120, hex_digit (c div 16), hex_digit (c mod 16)]
                     else [c])
      in [98, quote] @ concat (map esc bs) @ [quote])"

text \<open>
  The date step: \<open>date_str = item['bizdate']\<close> raises \<open>KeyError\<close> on an absent key;
  the three slices \<open>date_str[:4]\<close>, \<open>date_str[4:6]\<close> and \<open>date_str[6:8]\<close> raise
  \<open>TypeError\<close> on \<open>None\<close> and on a number, and never raise on a text or a byte
  string, whatever its length.
\<close>

definition format_date :: "pyval option \<Rightarrow> py_error + py_str" where
  "format_date entry =
     (case entry of
        None \<Rightarrow> Inl KeyError
      | Some PyNone \<Rightarrow> Inl TypeError
      | Some (PyInt n) \<Rightarrow> Inl TypeError
      | Some (PyFloat x) \<Rightarrow> Inl TypeError
      | Some (PyBytes b) \<Rightarrow>
          Inr (bytes_repr (take 4 b) @ [45] @ bytes_repr (take 2 (drop 4 b)) @ [45]
               @ bytes_repr (take 2 (drop 6 b)))
      | Some (PyStr s) \<Rightarrow>
          Inr (take 4 s @ [45] @ take 2 (drop 4 s) @ [45] @ take 2 (drop 6 s)))"

text \<open>\<open>item.get('compareToPreviousPrice', {}).get('text', '')\<close>.\<close>

definition direction_text :: "nested option \<Rightarrow> py_error + pyval" where
  "direction_text entry =
     (case entry of
        None \<Rightarrow> Inr (PyStr [])
      | Some NotMapping \<Rightarrow> Inl AttributeError
      | Some (Mapping None) \<Rightarrow> Inr (PyStr [])
      | Some (Mapping (Some t)) \<Rightarrow> Inr t)"

text \<open>
  \<open>(price_change / prev_close * 100) if prev_close != 0 else 0\<close>: the true division
  of two integers raises \<open>OverflowError\<close> when the quotient is beyond the binary64
  range; the product with 100 overflows to an infinity without raising.
\<close>

definition percent_change :: "int \<Rightarrow> int \<Rightarrow> py_error + pyfloat" where
  "percent_change price_change' prev_close =
     (if prev_close \<noteq> 0 then
        (let q = (of_int price_change' :: rat) / of_int prev_close in
         if binary64_overflows q then Inl OverflowError
         else if binary64_overflows (q * 100) then Inr (if q < 0 then NegInf else PosInf)
         else Inr (Finite (q * 100)))
      else Inr (Finite 0))"

text \<open>\<open>round(x, 2)\<close>: to the nearest hundredth, ties to the even one.\<close>

definition round_half_even :: "rat \<Rightarrow> int" where
  "round_half_even r =
     (let f = \<lfloor>r\<rfloor>; d = r - of_int f in
      if d < 1 / 2 then f else if d > 1 / 2 then f + 1 else if even f then f else f + 1)"

definition round2 :: "pyfloat \<Rightarrow> pyfloat" where
  "round2 x = (case x of Finite q \<Rightarrow> Finite (of_int (round_half_even (q * 100)) / 100) | _ \<Rightarrow> x)"

text \<open>
  The body of the \<open>try\<close> block of \<open>data_collector.py\<close>,
  \<open>StockDataCollector.parse_stock_data\<close>, in the order of the source.
\<close>

definition parse_item :: "py_str \<Rightarrow> py_str \<Rightarrow> raw_item \<Rightarrow> py_error + flow_record" where
  "parse_item code name item =
     and_then (format_date (bizdate item)) (\<lambda>formatted_date.
     and_then (safe_int_convert (get_or_zero (closePrice item))) (\<lambda>close_price'.
     and_then (safe_int_convert (get_or_zero (compareToPreviousClosePrice item))) (\<lambda>price_change'.
     and_then (direction_text (compareToPreviousPrice item)) (\<lambda>change_direction'.
     and_then (percent_change price_change' (close_price' - price_change')) (\<lambda>change_rate'.
     and_then (safe_int_convert (get_or_zero (foreignerPureBuyQuant item))) (\<lambda>foreigner_pure_buy'.
     and_then (safe_float_convert (get_or_zero (foreignerHoldRatio item))) (\<lambda>foreigner_hold_ratio'.
     and_then (safe_int_convert (get_or_zero (organPureBuyQuant item))) (\<lambda>organ_pure_buy'.
     and_then (safe_int_convert (get_or_zero (individualPureBuyQuant item))) (\<lambda>individual_pure_buy'.
     and_then (safe_int_convert (get_or_zero (accumulatedTradingVolume item))) (\<lambda>accumulated_volume'.
       (let net_institutional_buy' = foreigner_pure_buy' + organ_pure_buy';
            supply_demand_balance' = net_institutional_buy' + individual_pure_buy'
        in Inr \<lparr> stock_code = code, stock_name = name, date = formatted_date,
                 close_price = close_price', price_change = price_change',
                 change_direction = change_direction', change_rate = round2 change_rate',
                 foreigner_pure_buy = foreigner_pure_buy',
                 foreigner_hold_ratio = foreigner_hold_ratio',
                 organ_pure_buy = organ_pure_buy', individual_pure_buy = individual_pure_buy',
                 accumulated_volume = accumulated_volume',
                 net_institutional_buy = net_institutional_buy',
                 supply_demand_balance = supply_demand_balance' \<rparr>)))))))))))"

text \<open>
  An entry of the batch is a raw record (a mapping) or another value of the payload
  (\<open>None\<close>, a number, a text, a list, or a key when the payload is itself a mapping),
  which has neither a lookup by key nor a \<open>get\<close> method.  On such an entry the first
  statement of the block, \<open>item['bizdate']\<close>, raises \<open>TypeError\<close>.
\<close>

datatype batch_entry = Record raw_item | NotRecord

definition parse_entry :: "py_str \<Rightarrow> py_str \<Rightarrow> batch_entry \<Rightarrow> py_error + flow_record" where
  "parse_entry code name entry =
     (case entry of
        Record item \<Rightarrow> parse_item code name item
      | NotRecord \<Rightarrow> Inl TypeError)"

text \<open>
  The \<open>except Exception\<close> handler prints \<open>item.get('bizdate', 'unknown')\<close> before
  \<open>continue\<close>.  On a mapping this never raises; on any other entry the call raises
  \<open>AttributeError\<close> inside the handler, and that exception leaves the function.
\<close>

definition except_handler :: "batch_entry \<Rightarrow> py_error + unit" where
  "except_handler entry =
     (case entry of
        Record item \<Rightarrow> Inr ()
      | NotRecord \<Rightarrow> Inl AttributeError)"

text \<open>
  The \<open>for item in raw_data\<close> loop of \<open>data_collector.py\<close>,
  \<open>StockDataCollector.parse_stock_data\<close>: an entry whose block raised goes through the
  handler and is skipped by \<open>continue\<close>, the others are appended to
  \<open>parsed_data\<close>; an exception of the handler ends the loop and the function.
\<close>

fun parse_loop ::
  "py_str \<Rightarrow> py_str \<Rightarrow> batch_entry list \<Rightarrow> flow_record list \<Rightarrow> py_error + flow_record list" where
  "parse_loop code name [] parsed_data = Inr parsed_data"
| "parse_loop code name (item # rest) parsed_data =
     (case parse_entry code name item of
        Inr parsed_item \<Rightarrow> parse_loop code name rest (parsed_data @ [parsed_item])
      | Inl e \<Rightarrow>
          (case except_handler item of
             Inl e' \<Rightarrow> Inl e'
           | Inr u \<Rightarrow> parse_loop code name rest parsed_data))"

definition parse_stock_data ::
  "py_str \<Rightarrow> py_str \<Rightarrow> batch_entry list \<Rightarrow> py_error + flow_record list" where
  "parse_stock_data code name raw_data =
     (if raw_data = [] then Inr [] else parse_loop code name raw_data [])"



section \<open>Favorites ranker: \<open>find_institutional_favorites\<close>\<close>


text \<open>
  \<open>analysis.py\<close>, \<open>StockAnalyzer.calculate_supply_trend\<close>.  The entries of the
  analysis dictionary that no caller in the ranker reads (code, name, analysis date,
  window and the three averages) are left out.
\<close>

record supply_analysis =
  foreigner_total :: int
  foreigner_trend :: trend
  organ_total :: int
  organ_trend :: trend
  individual_total :: int
  individual_trend :: trend
  supply_score :: int
  recommendation :: recommendation







section \<open>The specification's reading of the favorites ranker\<close>











section \<open>Properties of the score aggregator\<close>

lemma py_int_of_int: "py_int (of_int n) = n"
  by (simp add: py_int_def)

lemma foreigner_term_40:
  "of_int ((foreigner_map t - 50) * 40) / (100 :: rat) = of_int ((foreigner_map t - 50) * 2 div 5)"
  by (cases t) simp_all

lemma organ_term_40:
  "of_int ((organ_map t - 50) * 40) / (100 :: rat) = of_int ((organ_map t - 50) * 2 div 5)"
  by (cases t) simp_all

lemma individual_term_20:
  "of_int ((individual_map t - 50) * 20) / (100 :: rat) = of_int ((individual_map t - 50) div 5)"
  by (cases t) simp_all

lemma foreigner_term_04:
  "of_int (foreigner_map t - 50) * (4 / 10 :: rat) = of_int ((foreigner_map t - 50) * 2 div 5)"
  by (cases t) simp_all

lemma organ_term_04:
  "of_int (organ_map t - 50) * (4 / 10 :: rat) = of_int ((organ_map t - 50) * 2 div 5)"
  by (cases t) simp_all

lemma individual_term_02:
  "of_int (individual_map t - 50) * (2 / 10 :: rat) = of_int ((individual_map t - 50) div 5)"
  by (cases t) simp_all

lemma calculate_supply_score_whole:
  "calculate_supply_score f g i = max 0 (min 100 (whole_score f g i))"
proof -
  have "(50 :: rat) + of_int ((foreigner_map f - 50) * 40) / 100
      + of_int ((organ_map g - 50) * 40) / 100
      + of_int ((individual_map i - 50) * 20) / 100 = of_int (whole_score f g i)"
    unfolding foreigner_term_40 organ_term_40 individual_term_20 whole_score_def by simp
  then show ?thesis
    by (simp add: calculate_supply_score_def Let_def py_int_of_int)
qed

lemma analyzer_calculate_supply_score_whole:
  "analyzer_calculate_supply_score f g i = max 0 (min 100 (whole_score f g i))"
proof -
  have "(50 :: rat) + of_int (foreigner_map f - 50) * (4 / 10)
      + of_int (organ_map g - 50) * (4 / 10)
      + of_int (individual_map i - 50) * (2 / 10) = of_int (whole_score f g i)"
    unfolding foreigner_term_04 organ_term_04 individual_term_02 whole_score_def by simp
  then show ?thesis
    by (simp add: analyzer_calculate_supply_score_def Let_def py_int_of_int)
qed

lemma spec_reference_value_foreigner: "spec_reference_value t = of_int (foreigner_map t)"
  by (cases t) simp_all

lemma spec_reference_value_organ: "spec_reference_value t = of_int (organ_map t)"
  by (cases t) simp_all

lemma spec_inverted_value_individual: "spec_inverted_value t = of_int (individual_map t)"
  by (cases t) simp_all

lemma spec_weighted_sum_whole: "spec_weighted_sum f g i = of_int (whole_score f g i)"
proof -
  have w40: "(40 / 100 :: rat) = 4 / 10" and w20: "(20 / 100 :: rat) = 2 / 10"
    by simp_all
  have m: "\<And>n :: int. (of_int n :: rat) - 50 = of_int (n - 50)"
    by simp
  have "spec_weighted_sum f g i =
      50 + (of_int (foreigner_map f) - 50) * (40 / 100)
         + (of_int (organ_map g) - 50) * (40 / 100)
         + (of_int (individual_map i) - 50) * (20 / 100)"
    unfolding spec_weighted_sum_def
    by (simp only: spec_reference_value_foreigner [of f] spec_reference_value_organ [of g]
        spec_inverted_value_individual [of i])
  also have "\<dots> = of_int (whole_score f g i)"
    unfolding w40 w20 m foreigner_term_04 organ_term_04 individual_term_02 whole_score_def
    by simp
  finally show ?thesis .
qed

lemma clamp_of_int: "max 0 (min 100 (of_int n :: rat)) = of_int (max 0 (min 100 n))"
  by (simp add: max_def min_def)

lemma spec_composite_score_whole:
  "spec_composite_score f g i = max 0 (min 100 (whole_score f g i))"
  unfolding spec_composite_score_def spec_weighted_sum_whole clamp_of_int
  by (rule py_int_of_int)

lemma whole_score_range: "0 \<le> whole_score f g i \<and> whole_score f g i \<le> 100"
  by (cases f; cases g; cases i) (simp_all add: whole_score_def)

text \<open>
  C1.  For every triple of trend labels the composite score computed by the code (both
  copies of \<open>calculate_supply_score\<close>) is the truncation of the weighted sum
  \<open>50 + (F - 50) \<times> 0.40 + (O - 50) \<times> 0.40 + (I - 50) \<times> 0.20\<close> clamped into
  \<open>[0, 100]\<close>, whether the clamp is read before or after the truncation, where \<open>F\<close>
  and \<open>O\<close> come from the specification's reference table 100, 75, 50, 25, 0 and \<open>I\<close>
  from its inverted table 0, 25, 50, 75, 100.  The legs (strong buy, strong buy, strong
  sell) give 100, three neutral legs give 50, (neutral, neutral, buy) gives 45, and every
  result lies between 0 and 100.  The dictionaries of the code hold the values of the two
  tables of the specification.
\<close>

theorem calculate_supply_score_composite:
  "of_int (foreigner_map f) = spec_reference_value f
   \<and> of_int (organ_map g) = spec_reference_value g
   \<and> of_int (individual_map i) = spec_inverted_value i
   \<and> calculate_supply_score f g i = spec_composite_score f g i
   \<and> analyzer_calculate_supply_score f g i = spec_composite_score f g i
   \<and> calculate_supply_score f g i = max 0 (min 100 (py_int (spec_weighted_sum f g i)))
   \<and> calculate_supply_score strong_buy strong_buy strong_sell = 100
   \<and> calculate_supply_score neutral neutral neutral = 50
   \<and> calculate_supply_score neutral neutral buy = 45
   \<and> calculate_supply_score sell buy strong_buy = 40
   \<and> calculate_supply_score strong_sell strong_sell strong_buy = 0
   \<and> analyzer_calculate_supply_score strong_buy strong_buy strong_sell = 100
   \<and> analyzer_calculate_supply_score neutral neutral neutral = 50
   \<and> analyzer_calculate_supply_score neutral neutral buy = 45
   \<and> analyzer_calculate_supply_score sell buy strong_buy = 40
   \<and> analyzer_calculate_supply_score strong_sell strong_sell strong_buy = 0
   \<and> 0 \<le> calculate_supply_score f g i \<and> calculate_supply_score f g i \<le> 100
   \<and> 0 \<le> analyzer_calculate_supply_score f g i \<and> analyzer_calculate_supply_score f g i \<le> 100"
proof -
  have a: "calculate_supply_score f g i = spec_composite_score f g i"
    by (simp only: calculate_supply_score_whole spec_composite_score_whole)
  have b: "analyzer_calculate_supply_score f g i = spec_composite_score f g i"
    by (simp only: analyzer_calculate_supply_score_whole spec_composite_score_whole)
  have c: "calculate_supply_score f g i = max 0 (min 100 (py_int (spec_weighted_sum f g i)))"
    by (simp only: calculate_supply_score_whole spec_weighted_sum_whole py_int_of_int)
  have d: "calculate_supply_score strong_buy strong_buy strong_sell = 100"
    "calculate_supply_score neutral neutral neutral = 50"
    "calculate_supply_score neutral neutral buy = 45"
    "calculate_supply_score sell buy strong_buy = 40"
    "calculate_supply_score strong_sell strong_sell strong_buy = 0"
    by (simp_all add: calculate_supply_score_whole whole_score_def)
  have e: "analyzer_calculate_supply_score strong_buy strong_buy strong_sell = 100"
    "analyzer_calculate_supply_score neutral neutral neutral = 50"
    "analyzer_calculate_supply_score neutral neutral buy = 45"
    "analyzer_calculate_supply_score sell buy strong_buy = 40"
    "analyzer_calculate_supply_score strong_sell strong_sell strong_buy = 0"
    by (simp_all add: analyzer_calculate_supply_score_whole whole_score_def)
  have r: "0 \<le> calculate_supply_score f g i" "calculate_supply_score f g i \<le> 100"
    by (simp_all add: calculate_supply_score_whole)
  have r': "0 \<le> analyzer_calculate_supply_score f g i"
    "analyzer_calculate_supply_score f g i \<le> 100"
    by (simp_all add: analyzer_calculate_supply_score_whole)
  from a b c d e r r' spec_reference_value_foreigner [of f] spec_reference_value_organ [of g]
    spec_inverted_value_individual [of i]
  show ?thesis by simp
qed

text \<open>
  C5.  The recommendation is a function of the score alone, with the thresholds 80, 60,
  40 and 20 tried from the highest down: strong buy exactly from 80, buy exactly on
  \<open>[60, 80)\<close>, hold exactly on \<open>[40, 60)\<close>, sell exactly on \<open>[20, 40)\<close> and strong
  sell exactly below 20.
\<close>

theorem get_recommendation_thresholds:
  "(get_recommendation score = rec_strong_buy \<longleftrightarrow> 80 \<le> score)
   \<and> (get_recommendation score = rec_buy \<longleftrightarrow> 60 \<le> score \<and> score < 80)
   \<and> (get_recommendation score = rec_hold \<longleftrightarrow> 40 \<le> score \<and> score < 60)
   \<and> (get_recommendation score = rec_sell \<longleftrightarrow> 20 \<le> score \<and> score < 40)
   \<and> (get_recommendation score = rec_strong_sell \<longleftrightarrow> score < 20)"
  by (simp add: get_recommendation_def)

section \<open>Properties of the streak detector\<close>

lemma sign_of_sgn: "sign_of v = sgn v"
  by (simp add: sign_of_def sgn_if)

lemma continuous_loop_takeWhile:
  "continuous_loop s xs n = n + int (length (takeWhile (\<lambda>v. sign_of v = s) xs))"
  by (induction xs arbitrary: n) simp_all

lemma calculate_continuous_days_spec: "calculate_continuous_days data = spec_streak data"
  by (cases data)
    (auto simp: calculate_continuous_days_def spec_streak_def Let_def continuous_loop_takeWhile
      sign_of_sgn sgn_if)

text \<open>
  C2.  The streak detector returns 0 on the empty series and on a series whose first
  element is zero; otherwise it returns the length of the leading run of elements with
  the sign of the first element (the first one counted, the run ending at the first sign
  change or at the end) times that sign.  The four examples of the specification hold.
\<close>

theorem calculate_continuous_days_streak:
  "calculate_continuous_days data = spec_streak data
   \<and> calculate_continuous_days [] = 0
   \<and> calculate_continuous_days (0 # rest) = 0
   \<and> calculate_continuous_days [0, 5, 5] = 0
   \<and> calculate_continuous_days [3, 2, 1, -1] = 3
   \<and> calculate_continuous_days [-1, -2, 3] = -2"
proof -
  have "calculate_continuous_days [] = 0" "calculate_continuous_days (0 # rest) = 0"
    "calculate_continuous_days [0, 5, 5] = 0"
    "calculate_continuous_days [3, 2, 1, -1] = 3"
    "calculate_continuous_days [-1, -2, 3] = -2"
    by (simp_all add: calculate_continuous_days_def sign_of_def)
  with calculate_continuous_days_spec [of data] show ?thesis by simp
qed

section \<open>Properties of the trend classifier\<close>

lemma counts_disjoint: "positive_count data + negative_count data \<le> length data"
  by (induction data) (auto simp: positive_count_def negative_count_def)

lemma length_filter_all: "length (filter P xs) = length xs \<longleftrightarrow> list_all P xs"
proof (induction xs)
  case Nil
  show ?case by simp
next
  case (Cons x xs)
  from Cons length_filter_le [of P xs] show ?case
    by (auto simp del: length_filter_le)
qed

lemma positive_count_all:
  "positive_count data = length data \<longleftrightarrow> list_all (\<lambda>v. v > 0) data"
  by (simp add: positive_count_def length_filter_all)

lemma negative_count_all:
  "negative_count data = length data \<longleftrightarrow> list_all (\<lambda>v. v < 0) data"
  by (simp add: negative_count_def length_filter_all)

lemma at_least_70_percent_5: "at_least_70_percent c 5 \<longleftrightarrow> (7 / 2 :: rat) \<le> of_nat c"
  by (simp add: at_least_70_percent_def)

lemma seven_halves: "(7 / 2 :: rat) \<le> of_nat c \<longleftrightarrow> 4 \<le> c"
proof -
  have "(7 / 2 :: rat) \<le> of_nat c \<longleftrightarrow> (7 :: rat) \<le> of_nat (2 * c)"
    by (simp add: field_simps)
  also have "\<dots> \<longleftrightarrow> 7 \<le> 2 * c"
    by (metis of_nat_le_iff of_nat_numeral)
  also have "\<dots> \<longleftrightarrow> 4 \<le> c" by arith
  finally show ?thesis .
qed

lemma assess_trend_5:
  assumes "length data = 5"
  shows "assess_trend data =
     (if positive_count data = 5 then strong_buy
      else if 4 \<le> positive_count data then buy
      else if negative_count data = 5 then strong_sell
      else if 4 \<le> negative_count data then sell
      else neutral)"
  using assms by (simp add: assess_trend_def Let_def at_least_70_percent_5 seven_halves)

lemma analyzer_assess_trend_5:
  assumes "length data = 5"
  shows "analyzer_assess_trend data =
     (if positive_count data = 5 then strong_buy
      else if 4 \<le> positive_count data then buy
      else if negative_count data = 5 then strong_sell
      else if 4 \<le> negative_count data then sell
      else neutral)"
  using assms by (simp add: analyzer_assess_trend_def Let_def at_least_70_percent_5 seven_halves)

lemma analyzer_assess_trend_eq_5:
  "length data = 5 \<Longrightarrow> analyzer_assess_trend data = assess_trend data"
  by (simp add: assess_trend_5 analyzer_assess_trend_5)

lemma assess_trend_window5_iffs:
  assumes len: "length data = 5"
  shows "(assess_trend data = strong_buy \<longleftrightarrow> list_all (\<lambda>v. v > 0) data)
   \<and> (assess_trend data = buy \<longleftrightarrow>
        4 \<le> length (filter (\<lambda>v. v > 0) data) \<and> \<not> list_all (\<lambda>v. v > 0) data)
   \<and> (assess_trend data = strong_sell \<longleftrightarrow> list_all (\<lambda>v. v < 0) data)
   \<and> (assess_trend data = sell \<longleftrightarrow>
        4 \<le> length (filter (\<lambda>v. v < 0) data) \<and> \<not> list_all (\<lambda>v. v < 0) data)
   \<and> (assess_trend data = neutral \<longleftrightarrow>
        length (filter (\<lambda>v. v > 0) data) < 4 \<and> length (filter (\<lambda>v. v < 0) data) < 4)"
proof -
  have p: "list_all (\<lambda>v. v > 0) data \<longleftrightarrow> positive_count data = 5"
    using positive_count_all [of data] len by simp
  have n: "list_all (\<lambda>v. v < 0) data \<longleftrightarrow> negative_count data = 5"
    using negative_count_all [of data] len by simp
  have d: "positive_count data + negative_count data \<le> 5"
    using counts_disjoint [of data] len by simp
  have pc: "length (filter (\<lambda>v. v > 0) data) = positive_count data"
    and nc: "length (filter (\<lambda>v. v < 0) data) = negative_count data"
    by (simp_all add: positive_count_def negative_count_def)
  show ?thesis
    unfolding p n pc nc assess_trend_5 [OF len] using d by auto
qed

lemma assess_trend_examples:
  "assess_trend [1, 1, 1, 1, -1] = buy" "assess_trend [1, 1, 1, -1, -1] = neutral"
  "analyzer_assess_trend [1, 1, 1, 1, -1] = buy"
  "analyzer_assess_trend [1, 1, 1, -1, -1] = neutral"
  "assess_trend [1, 1, 1, 1, 0] = buy" "analyzer_assess_trend [1, 1, 1, 1, 0] = buy"
  "assess_trend [1, 1] = neutral" "analyzer_assess_trend [1, 1] = strong_buy"
  "assess_trend [0, 0, 0] = neutral" "analyzer_assess_trend [0, 0, 0] = neutral"
  by (simp_all add: assess_trend_def analyzer_assess_trend_def positive_count_def
      negative_count_def at_least_70_percent_def)

lemma assess_trend_sign_examples:
  "assess_trend [1, 1, 1, 1, 1] = strong_buy" "analyzer_assess_trend [1, 1, 1, 1, 1] = strong_buy"
  "assess_trend [-1, -1, -1, -1, -1] = strong_sell"
  "analyzer_assess_trend [-1, -1, -1, -1, -1] = strong_sell"
  "assess_trend [-1, -1, -1, -1, 1] = sell" "analyzer_assess_trend [-1, -1, -1, -1, 1] = sell"
  "assess_trend [-1, -1, -1, 1, 1] = neutral" "analyzer_assess_trend [-1, -1, -1, 1, 1] = neutral"
  by (simp_all add: assess_trend_def analyzer_assess_trend_def positive_count_def
      negative_count_def at_least_70_percent_def)

text \<open>
  C3.  On a window of exactly five values the classifier (either copy) returns strong buy
  exactly when all five are strictly positive; buy exactly when the number of strictly
  positive values reaches the fractional threshold 3.5 (that is, is at least 4) without
  being all five; strong sell exactly when all five are strictly negative; sell exactly
  when the number of strictly negative values reaches 3.5 without being all five; and
  neutral in every other case.  The numbers of strictly positive and of strictly negative
  values are counted on the window itself, not through the tallies of the code.  Four
  positives and one negative give buy; three positives and two negatives give neutral;
  four negatives and one positive give sell; three negatives and two positives give
  neutral.
\<close>

theorem assess_trend_window5:
  "(length data = 5 \<longrightarrow>
      (assess_trend data = strong_buy \<longleftrightarrow> list_all (\<lambda>v. v > 0) data)
    \<and> (assess_trend data = buy \<longleftrightarrow>
         (7 / 2 :: rat) \<le> of_nat (length (filter (\<lambda>v. v > 0) data))
         \<and> \<not> list_all (\<lambda>v. v > 0) data)
    \<and> (assess_trend data = strong_sell \<longleftrightarrow> list_all (\<lambda>v. v < 0) data)
    \<and> (assess_trend data = sell \<longleftrightarrow>
         (7 / 2 :: rat) \<le> of_nat (length (filter (\<lambda>v. v < 0) data))
         \<and> \<not> list_all (\<lambda>v. v < 0) data)
    \<and> (assess_trend data = neutral \<longleftrightarrow>
         length (filter (\<lambda>v. v > 0) data) < 4 \<and> length (filter (\<lambda>v. v < 0) data) < 4)
    \<and> ((7 / 2 :: rat) \<le> of_nat (length (filter (\<lambda>v. v > 0) data))
         \<longleftrightarrow> 4 \<le> length (filter (\<lambda>v. v > 0) data))
    \<and> ((7 / 2 :: rat) \<le> of_nat (length (filter (\<lambda>v. v < 0) data))
         \<longleftrightarrow> 4 \<le> length (filter (\<lambda>v. v < 0) data))
    \<and> analyzer_assess_trend data = assess_trend data)
   \<and> (at_least_70_percent k 5 \<longleftrightarrow> (7 / 2 :: rat) \<le> of_nat k)
   \<and> assess_trend [1, 1, 1, 1, -1] = buy
   \<and> assess_trend [1, 1, 1, -1, -1] = neutral
   \<and> assess_trend [-1, -1, -1, -1, 1] = sell
   \<and> assess_trend [-1, -1, -1, 1, 1] = neutral
   \<and> assess_trend [1, 1, 1, 1, 1] = strong_buy
   \<and> assess_trend [-1, -1, -1, -1, -1] = strong_sell
   \<and> analyzer_assess_trend [1, 1, 1, 1, -1] = buy
   \<and> analyzer_assess_trend [1, 1, 1, -1, -1] = neutral
   \<and> analyzer_assess_trend [-1, -1, -1, -1, 1] = sell
   \<and> analyzer_assess_trend [-1, -1, -1, 1, 1] = neutral
   \<and> analyzer_assess_trend [1, 1, 1, 1, 1] = strong_buy
   \<and> analyzer_assess_trend [-1, -1, -1, -1, -1] = strong_sell"
  using assess_trend_window5_iffs [of data] analyzer_assess_trend_eq_5 [of data]
    seven_halves [of "length (filter (\<lambda>v. v > 0) data)"]
    seven_halves [of "length (filter (\<lambda>v. v < 0) data)"]
    at_least_70_percent_5 [of k]
  by (simp add: assess_trend_examples assess_trend_sign_examples)

theorem assess_trend_window5_witness:
  "length [3, 2, 5, 1, -4 :: int] = 5
   \<and> assess_trend [3, 2, 5, 1, -4] = buy
   \<and> analyzer_assess_trend [3, 2, 5, 1, -4] = buy
   \<and> length [-3, -2, 5, -1, -4 :: int] = 5
   \<and> assess_trend [-3, -2, 5, -1, -4] = sell
   \<and> analyzer_assess_trend [-3, -2, 5, -1, -4] = sell
   \<and> assess_trend [-3, -2, -5, -1, -4] = strong_sell
   \<and> assess_trend [-3, 0, 5, -1, -4] = neutral"
  using assess_trend_window5 [of "[3, 2, 5, 1, -4]"] assess_trend_window5 [of "[-3, -2, 5, -1, -4]"]
    assess_trend_window5 [of "[-3, -2, -5, -1, -4]"] assess_trend_window5 [of "[-3, 0, 5, -1, -4]"]
  by simp

lemma zero_positive_count: "0 \<in> set xs \<Longrightarrow> positive_count xs \<noteq> length xs"
  by (auto simp: positive_count_all list_all_iff)

lemma zero_negative_count: "0 \<in> set xs \<Longrightarrow> negative_count xs \<noteq> length xs"
  by (auto simp: negative_count_all list_all_iff)

lemma all_zero_counts:
  "list_all (\<lambda>v. v = 0) xs \<Longrightarrow> positive_count xs = 0 \<and> negative_count xs = 0"
  by (induction xs) (simp_all add: positive_count_def negative_count_def)

lemma not_at_least_70_percent_0: "0 < n \<Longrightarrow> \<not> at_least_70_percent 0 n"
  by (simp add: at_least_70_percent_def)

lemma count_partition:
  "positive_count data + negative_count data + length (filter (\<lambda>v. v = 0) data) = length data"
  by (induction data) (auto simp: positive_count_def negative_count_def)

lemma assess_trend_zero: 
  assumes "0 \<in> set (take 5 data)"
  shows "assess_trend data \<noteq> strong_buy \<and> assess_trend data \<noteq> strong_sell"
  using zero_positive_count [OF assms] zero_negative_count [OF assms]
  by (simp add: assess_trend_def Let_def)

lemma analyzer_assess_trend_zero: 
  assumes "0 \<in> set data"
  shows "analyzer_assess_trend data \<noteq> strong_buy \<and> analyzer_assess_trend data \<noteq> strong_sell"
  using zero_positive_count [OF assms] zero_negative_count [OF assms]
  by (simp add: analyzer_assess_trend_def Let_def)

lemma assess_trend_all_zero:
  assumes "3 \<le> length data" "list_all (\<lambda>v. v = 0) (take 5 data)"
  shows "assess_trend data = neutral"
proof -
  have "0 < length (take 5 data)" using assms(1) by (cases data) simp_all
  then show ?thesis
    using all_zero_counts [OF assms(2)] assms(1)
    by (simp add: assess_trend_def Let_def not_at_least_70_percent_0 del: length_take)
qed

lemma analyzer_assess_trend_all_zero:
  assumes "3 \<le> length data" "list_all (\<lambda>v. v = 0) data"
  shows "analyzer_assess_trend data = neutral"
proof -
  have "0 < length data" using assms(1) by (cases data) simp_all
  then show ?thesis
    using all_zero_counts [OF assms(2)] assms(1)
    by (simp add: analyzer_assess_trend_def Let_def not_at_least_70_percent_0)
qed

lemma assess_trend_short: "length data < 3 \<Longrightarrow> assess_trend data = neutral"
  by (simp add: assess_trend_def)

text \<open>
  C10.  A value equal to zero counts toward the length of the window and toward neither
  tally.  Hence a window with a zero among its inspected values (the first five for the
  collector's classifier, all of them for the analyzer's) is never classified strong buy
  or strong sell, and a window of at least three values whose inspected values are all
  zero is classified neutral.  Four positives followed by a zero give buy.
\<close>

theorem assess_trend_zero_values:
  "(0 \<in> set (take 5 data) \<longrightarrow>
      assess_trend data \<noteq> strong_buy \<and> assess_trend data \<noteq> strong_sell)
   \<and> (0 \<in> set data \<longrightarrow>
      analyzer_assess_trend data \<noteq> strong_buy \<and> analyzer_assess_trend data \<noteq> strong_sell)
   \<and> (3 \<le> length data \<and> list_all (\<lambda>v. v = 0) (take 5 data) \<longrightarrow> assess_trend data = neutral)
   \<and> (3 \<le> length data \<and> list_all (\<lambda>v. v = 0) data \<longrightarrow> analyzer_assess_trend data = neutral)
   \<and> positive_count data + negative_count data + length (filter (\<lambda>v. v = 0) data) = length data
   \<and> assess_trend [1, 1, 1, 1, 0] = buy
   \<and> analyzer_assess_trend [1, 1, 1, 1, 0] = buy"
  using assess_trend_zero [of data] analyzer_assess_trend_zero [of data]
    assess_trend_all_zero [of data] analyzer_assess_trend_all_zero [of data]
    count_partition [of data]
  by (simp add: assess_trend_examples)

theorem assess_trend_zero_values_witness:
  "0 \<in> set (take 5 [7, 0, 2, 4, 9 :: int])
   \<and> 3 \<le> length [0, 0, 0, 0 :: int] \<and> list_all (\<lambda>v. v = 0) [0, 0, 0, 0 :: int]
   \<and> assess_trend [7, 0, 2, 4, 9] \<noteq> strong_buy
   \<and> analyzer_assess_trend [7, 0, 2, 4, 9] \<noteq> strong_buy
   \<and> assess_trend [0, 0, 0, 0] = neutral
   \<and> analyzer_assess_trend [0, 0, 0, 0] = neutral"
  using assess_trend_zero_values [of "[7, 0, 2, 4, 9]"] assess_trend_zero_values [of "[0, 0, 0, 0]"]
  by simp

text \<open>
  C4.  The collector's classifier returns neutral on every window of fewer than three
  values (\<open>assess_trend_short\<close>).  The analyzer's copy guards with
  \<open>len(data) < 2\<close> instead: on the two-value window \<open>[1, 1]\<close> it returns strong
  buy where the collector's returns neutral.
\<close>

theorem analyzer_assess_trend_two_values:
  "analyzer_assess_trend [1, 1] = strong_buy \<and> assess_trend [1, 1] = neutral"
  by (simp add: assess_trend_examples)

section \<open>Properties of the numeric normalizer\<close>

lemma normalizer_examples:
  "safe_int_convert PyNone = Inr 0"
  "safe_int_convert (PyStr (text_of ''1,234'')) = Inr 1234"
  "safe_int_convert (PyStr (text_of ''+57'')) = Inr 57"
  "safe_int_convert (PyStr (text_of ''abc'')) = Inr 0"
  "safe_float_convert PyNone = Inr (Finite 0)"
  "safe_float_convert (PyStr (text_of ''12.5%'')) = Inr (Finite (25 / 2))"
  "safe_float_convert (PyStr (text_of '''')) = Inr (Finite 0)"
  by (simp_all add: safe_int_convert_def safe_float_convert_def float_of_text_def int_of_text_def
      text_of_def strip_by_def number_space_def is_digit_def parse_decimal_def digits_val_def
      lower_def binary64_overflows_def)

lemma parse_examples:
  "parse_numeric_string PyNone = 0"
  "parse_numeric_string (PyStr (text_of ''1,234'')) = 1234"
  "parse_numeric_string (PyStr (text_of ''+57'')) = 57"
  "parse_numeric_string (PyStr (text_of ''abc'')) = 0"
  "parse_numeric_string (PyFloat PosInf) = 0"
  "parse_ratio_string PyNone = Finite 0"
  "parse_ratio_string (PyStr (text_of ''12.5%'')) = Finite (25 / 2)"
  "parse_ratio_string (PyStr (text_of '''')) = Finite 0"
  by (simp_all add: parse_numeric_string_def parse_ratio_string_def numeric_text_def ratio_text_def
      float_of_text_def int_of_text_def strip_space_def
      text_of_def strip_by_def number_space_def is_digit_def parse_decimal_def digits_val_def
      lower_def binary64_overflows_def)

lemma safe_int_convert_total_text: "\<exists>n. safe_int_convert (PyStr s) = Inr n"
  by (simp add: safe_int_convert_def Let_def split: option.split)

lemma safe_int_convert_total_bytes: "\<exists>n. safe_int_convert (PyBytes b) = Inr n"
  by (simp add: safe_int_convert_def split: option.split)

lemma safe_float_convert_total_text: "\<exists>x. safe_float_convert (PyStr s) = Inr x"
  by (simp add: safe_float_convert_def Let_def split: option.split)

lemma safe_float_convert_total_bytes: "\<exists>x. safe_float_convert (PyBytes b) = Inr x"
  by (simp add: safe_float_convert_def split: option.split)

lemma safe_int_convert_unparseable:
  "int_of_text (filter (\<lambda>c. c \<noteq> 43 \<and> c \<noteq> 44) s) = None \<Longrightarrow> safe_int_convert (PyStr s) = Inr 0"
  by (simp add: safe_int_convert_def)

lemma safe_float_convert_unparseable:
  "float_of_text (filter (\<lambda>c. c \<noteq> 37) s) = None \<Longrightarrow> safe_float_convert (PyStr s) = Inr (Finite 0)"
  by (simp add: safe_float_convert_def)

lemma safe_int_convert_undecodable:
  "decode_utf8 b = None \<Longrightarrow> safe_int_convert (PyBytes b) = Inr 0"
  by (simp add: safe_int_convert_def)

text \<open>
  C6.  The text and byte branches of \<open>safe_int_convert\<close> and
  \<open>safe_float_convert\<close> always return a value, zero when the text does not parse
  (the lemmas above), and the examples of the specification hold.  The numeric branch
  is not guarded: \<open>safe_int_convert\<close> raises \<open>OverflowError\<close> on an infinite
  float and \<open>ValueError\<close> on a NaN, and \<open>safe_float_convert\<close> raises
  \<open>OverflowError\<close> on the integer \<open>10^400\<close>, where \<open>parse_numeric_string\<close>
  returns 0.
\<close>

theorem safe_convert_numeric_raises:
  "safe_int_convert (PyFloat PosInf) = Inl OverflowError
   \<and> safe_int_convert (PyFloat NegInf) = Inl OverflowError
   \<and> safe_int_convert (PyFloat NaN) = Inl ValueError
   \<and> safe_float_convert (PyInt (10 ^ 400)) = Inl OverflowError
   \<and> parse_numeric_string (PyFloat PosInf) = 0"
  by (simp add: safe_int_convert_def int_of_float_def safe_float_convert_def float_of_int_def
      binary64_overflows_def parse_numeric_string_def)

text \<open>
  C7.  The byte string \<open>1,234\<close> decodes as UTF-8 to the text \<open>1,234\<close>, on
  which the textual rule gives 1234; \<open>safe_int_convert\<close> gives 0 on the byte
  string, because its byte branch parses the decoded text without removing the commas.
  Likewise \<open>safe_float_convert\<close> gives 12.5 on the text \<open>12.5%\<close> and 0 on the
  same bytes.  A byte string that does not decode gives 0
  (\<open>safe_int_convert_undecodable\<close>).
\<close>

theorem safe_int_convert_bytes_not_stripped:
  "decode_utf8 ''1,234'' = Some (text_of ''1,234'')
   \<and> safe_int_convert (PyStr (text_of ''1,234'')) = Inr 1234
   \<and> safe_int_convert (PyBytes ''1,234'') = Inr 0
   \<and> safe_float_convert (PyStr (text_of ''12.5%'')) = Inr (Finite (25 / 2))
   \<and> safe_float_convert (PyBytes ''12.5%'') = Inr (Finite 0)"
  by (simp add: safe_int_convert_def safe_float_convert_def decode_utf8_def
      float_of_text_def int_of_text_def
      text_of_def strip_by_def number_space_def is_digit_def parse_decimal_def digits_val_def
      lower_def binary64_overflows_def)

section \<open>Properties of the record parser\<close>






text \<open>
  An entry that is not a mapping aborts the batch: whatever the records before and after
  it, the function raises \<open>AttributeError\<close> and returns nothing.
\<close>

lemma parse_loop_not_record:
  "parse_loop code name (map Record before @ NotRecord # after) acc = Inl AttributeError"
proof (induction before arbitrary: acc)
  case Nil
  show ?case by (simp add: parse_entry_def except_handler_def)
next
  case (Cons item before)
  show ?case
  proof (cases "parse_item code name item")
    case (Inl e)
    with Cons [of acc] show ?thesis
      by (simp add: parse_entry_def except_handler_def)
  next
    case (Inr r)
    with Cons [of "acc @ [r]"] show ?thesis
      by (simp add: parse_entry_def)
  qed
qed

lemma parse_stock_data_not_record:
  "parse_stock_data code name (map Record before @ NotRecord # after) = Inl AttributeError"
  using parse_loop_not_record [of code name before after "[]"]
  by (simp add: parse_stock_data_def)





section \<open>Properties of the favorites ranker\<close>

























end
